theory Spec2Isabelle
  imports Main "HOL-Library.Sublist"
begin

section \<open>Go values used by the two packages\<close>

text \<open>
  A Go \<^verbatim>\<open>string\<close> is a byte sequence, which is what \<^typ>\<open>string\<close> is. A Go \<^verbatim>\<open>error\<close>
  is represented by its message; \<^verbatim>\<open>nil\<close> is \<^term>\<open>None\<close> in an \<^typ>\<open>string option\<close>.
\<close>

type_synonym error = string

text \<open>\<^verbatim>\<open>strings.Contains(s, substr)\<close>: \<^verbatim>\<open>substr\<close> occurs in \<^verbatim>\<open>s\<close> as a contiguous block.\<close>

fun Contains :: "string \<Rightarrow> string \<Rightarrow> bool" where
  "Contains [] substr = (substr = [])"
| "Contains (c # cs) substr = (if prefix substr (c # cs) then True else Contains cs substr)"

text \<open>
  \<^verbatim>\<open>strings.ReplaceAll(s, old, new)\<close> for a non-empty \<^verbatim>\<open>old\<close>: non-overlapping occurrences
  are replaced from the left. (With an empty \<^verbatim>\<open>old\<close> Go inserts \<^verbatim>\<open>new\<close> around every
  character; the only call of the source passes \<^verbatim>\<open>"/"\<close>.)
\<close>

function ReplaceAll :: "string \<Rightarrow> string \<Rightarrow> string \<Rightarrow> string" where
  "ReplaceAll [] old new = (if old = [] then new else [])"
| "ReplaceAll (c # cs) old new =
     (if old = [] then new @ c # ReplaceAll cs old new
      else if prefix old (c # cs) then new @ ReplaceAll (drop (length old) (c # cs)) old new
      else c # ReplaceAll cs old new)"
  by pat_completeness auto
termination
  by (relation "measure (\<lambda>(s, old, new). length s)") (auto simp: neq_Nil_conv)

text \<open>The verb \<^verbatim>\<open>%v\<close> of \<^verbatim>\<open>fmt\<close> on an \<^verbatim>\<open>int\<close>: decimal digits, with a sign when negative.\<close>

definition digit_char :: "nat \<Rightarrow> char" where
  "digit_char d = ''0123456789'' ! (d mod 10)"

fun nat_digits :: "nat \<Rightarrow> string" where
  "nat_digits n = (if n < 10 then [digit_char n] else nat_digits (n div 10) @ [digit_char n])"

declare nat_digits.simps [simp del]

definition FormatInt :: "int \<Rightarrow> string" where
  "FormatInt i = (if i < 0 then CHR ''-'' # nat_digits (nat (- i)) else nat_digits (nat i))"

text \<open>A value held in an \<^verbatim>\<open>interface{}\<close>, as far as the policy code looks at it.\<close>

datatype go_value =
    VBool bool
  | VString string
  | VStrings "string list"
  | VNumber int
  | VNull

datatype go_panic = NilPointerDereference

section \<open>Package policy\<close>

subsection \<open>HTTP as the provider uses it\<close>

text \<open>
  Everything outside the process (the policy store, the CI service, the policy engine, the
  executor) is reached through functions that take the state of the outside world \<open>'w\<close>
  and give it back: which calls were made, and in which order, is then visible in the
  world that a function returns.

  \<^verbatim>\<open>Body\<close> holds what \<^verbatim>\<open>io.ReadAll(resp.Body)\<close> gives: an error or the bytes read.
\<close>

record Request =
  Method :: string
  URL :: string
  Header :: "(string \<times> string) list"

record Response =
  StatusCode :: int
  Body :: "error + string"

record 'w DiggerHttpPolicyProvider =
  DiggerHost :: string
  DiggerOrganisation :: string
  AuthToken :: string
  HttpClient :: "Request \<Rightarrow> 'w \<Rightarrow> (error + Response) \<times> 'w"

text \<open>
  \<^verbatim>\<open>http.NewRequest(method, url, nil)\<close> fails when the URL does not parse; the parser of the
  Go library is the parameter \<open>parse_url\<close>, returning the error if there is one.
\<close>

definition NewRequest :: "(string \<Rightarrow> error option) \<Rightarrow> string \<Rightarrow> string \<Rightarrow> error + Request" where
  "NewRequest parse_url method url =
     (case parse_url url of
        Some err \<Rightarrow> Inl err
      | None \<Rightarrow> Inr \<lparr>Method = method, URL = url, Header = []\<rparr>)"

definition Header_Add :: "Request \<Rightarrow> string \<Rightarrow> string \<Rightarrow> Request" where
  "Header_Add req key val = req\<lparr>Header := Header req @ [(key, val)]\<rparr>"

text \<open>
  The part shared by \<^verbatim>\<open>getPolicyForOrganisation\<close> and \<^verbatim>\<open>getPolicyForNamespace\<close> after the
  request is built: add the bearer credential, send, read the body. A body that cannot be
  read gives the empty content with the response and no error. The Go functions return
  \<^verbatim>\<open>(string, *http.Response, error)\<close>; the response is \<^verbatim>\<open>nil\<close> exactly when the error is not,
  so the triple is a sum here.
\<close>

definition send_with_token ::
  "'w DiggerHttpPolicyProvider \<Rightarrow> error + Request \<Rightarrow> 'w \<Rightarrow> (error + string \<times> Response) \<times> 'w" where
  "send_with_token p r w =
     (case r of
        Inl err \<Rightarrow> (Inl err, w)
      | Inr req0 \<Rightarrow>
          (let req = Header_Add req0 ''Authorization'' (''Bearer '' @ AuthToken p) in
           case HttpClient p req w of
             (Inl err, w') \<Rightarrow> (Inl err, w')
           | (Inr resp, w') \<Rightarrow>
               (case Body resp of
                  Inl err \<Rightarrow> (Inr ('''', resp), w')
                | Inr body \<Rightarrow> (Inr (body, resp), w'))))"

definition organisation_url :: "'w DiggerHttpPolicyProvider \<Rightarrow> string" where
  "organisation_url p = DiggerHost p @ ''/orgs/'' @ DiggerOrganisation p @ ''/access-policy''"

definition namespace_url :: "'w DiggerHttpPolicyProvider \<Rightarrow> string \<Rightarrow> string \<Rightarrow> string" where
  "namespace_url p namespace projectName =
     DiggerHost p @ ''/repos/'' @ ReplaceAll namespace ''/'' ''-'' @ ''/projects/'' @ projectName
       @ ''/access-policy''"

definition getPolicyForOrganisation ::
  "(string \<Rightarrow> error option) \<Rightarrow> 'w DiggerHttpPolicyProvider \<Rightarrow> 'w \<Rightarrow> (error + string \<times> Response) \<times> 'w" where
  "getPolicyForOrganisation parse_url p w =
     send_with_token p (NewRequest parse_url ''GET'' (organisation_url p)) w"

definition getPolicyForNamespace ::
  "(string \<Rightarrow> error option) \<Rightarrow> 'w DiggerHttpPolicyProvider \<Rightarrow> string \<Rightarrow> string \<Rightarrow> 'w
     \<Rightarrow> (error + string \<times> Response) \<times> 'w" where
  "getPolicyForNamespace parse_url p namespace projectName w =
     send_with_token p (NewRequest parse_url ''GET'' (namespace_url p namespace projectName)) w"

subsection \<open>GetPolicy\<close>

definition unexpected_organisation :: "string \<Rightarrow> int \<Rightarrow> error" where
  "unexpected_organisation content code =
     ''unexpected response while fetching organisation policy: '' @ content @ '', code ''
       @ FormatInt code"

definition unexpected_project :: "string \<Rightarrow> int \<Rightarrow> error" where
  "unexpected_project content code =
     ''unexpected response while fetching org policy: '' @ content @ '' code '' @ FormatInt code"

definition GetPolicy ::
  "(string \<Rightarrow> error option) \<Rightarrow> 'w DiggerHttpPolicyProvider \<Rightarrow> string \<Rightarrow> string \<Rightarrow> 'w
     \<Rightarrow> (string \<times> error option) \<times> 'w" where
  "GetPolicy parse_url p namespace projectName w =
     (case getPolicyForNamespace parse_url p namespace projectName w of
        (Inl err, w1) \<Rightarrow> (('''', Some err), w1)
      | (Inr (content, resp), w1) \<Rightarrow>
          if StatusCode resp = 200 then ((content, None), w1)
          else if StatusCode resp = 404 then
            (case getPolicyForOrganisation parse_url p w1 of
               (Inl err, w2) \<Rightarrow> (('''', Some err), w2)
             | (Inr (content, resp), w2) \<Rightarrow>
                 if StatusCode resp = 200 then ((content, None), w2)
                 else if StatusCode resp = 404 then (('''', None), w2)
                 else (('''', Some (unexpected_organisation content (StatusCode resp))), w2))
          else (('''', Some (unexpected_project content (StatusCode resp))), w1))"

subsection \<open>The policy engine\<close>

text \<open>
  The engine (\<^verbatim>\<open>rego\<close>) is a collaborator: \<^verbatim>\<open>PrepareForEval\<close> takes the query, the module
  name and the module text and returns a prepared query \<open>'q\<close> or an error; \<^verbatim>\<open>Eval\<close>
  returns a result set together with an error. Each result carries a list of expressions
  whose \<^verbatim>\<open>Value\<close> is an \<^verbatim>\<open>interface{}\<close>.
\<close>

record ExpressionValue =
  Value :: go_value
  Text :: string

record Result =
  Expressions :: "ExpressionValue list"

record ('w, 'q) Rego =
  PrepareForEval :: "string \<Rightarrow> string \<Rightarrow> string \<Rightarrow> 'w \<Rightarrow> (error + 'q) \<times> 'w"
  Eval :: "'q \<Rightarrow> (string \<rightharpoonup> go_value) \<Rightarrow> 'w \<Rightarrow> (Result list \<times> error option) \<times> 'w"

subsection \<open>Check\<close>

text \<open>
  \<^verbatim>\<open>ciService\<close> is used through its method \<^verbatim>\<open>GetUserTeams(organisation, user)\<close> only, which
  returns the teams and an error.
\<close>

record 'w DiggerPolicyChecker =
  PolicyProvider :: "'w DiggerHttpPolicyProvider"
  ciService_GetUserTeams :: "string \<Rightarrow> string \<Rightarrow> 'w \<Rightarrow> (string list \<times> error option) \<times> 'w"

definition NoOpPolicyChecker_Check ::
  "string \<Rightarrow> string \<Rightarrow> string \<Rightarrow> string \<Rightarrow> string \<Rightarrow> 'w \<Rightarrow> (bool \<times> error option) \<times> 'w" where
  "NoOpPolicyChecker_Check a b c d e w = ((True, None), w)"

text \<open>The loop over the expressions of the first result.\<close>

fun check_expressions :: "ExpressionValue list \<Rightarrow> bool \<times> error option" where
  "check_expressions [] = (True, None)"
| "check_expressions (expression # rest) =
     (case Value expression of
        VBool decision \<Rightarrow> if \<not> decision then (False, None) else check_expressions rest
      | _ \<Rightarrow> (False, Some ''decision is not a boolean''))"

text \<open>What \<^verbatim>\<open>Check\<close> does with the result set once \<^verbatim>\<open>Eval\<close> has returned.\<close>

definition check_results :: "Result list \<Rightarrow> bool \<times> error option" where
  "check_results results =
     (case results of
        [] \<Rightarrow> (False, Some ''no result found'')
      | r # _ \<Rightarrow>
          if Expressions r = [] then (False, Some ''no result found'')
          else check_expressions (Expressions r))"

definition policy_input ::
  "string \<Rightarrow> string \<Rightarrow> string list \<Rightarrow> string \<Rightarrow> string \<Rightarrow> (string \<rightharpoonup> go_value)" where
  "policy_input requestedBy organisation teams command projectName =
     [''user'' \<mapsto> VString requestedBy,
      ''organisation'' \<mapsto> VString organisation,
      ''teams'' \<mapsto> VStrings teams,
      ''action'' \<mapsto> VString command,
      ''project'' \<mapsto> VString projectName]"

text \<open>
  \<^verbatim>\<open>DiggerPolicyChecker.Check\<close>. The source assigns the error of \<^verbatim>\<open>GetPolicy\<close> to \<^verbatim>\<open>err\<close>
  and assigns \<^verbatim>\<open>err\<close> again from \<^verbatim>\<open>GetUserTeams\<close> before reading it; the error of \<^verbatim>\<open>Eval\<close>
  is not read either. (The two \<^verbatim>\<open>Printf\<close> calls write to standard output, which is not part
  of the result.)
\<close>

definition Check ::
  "(string \<Rightarrow> error option) \<Rightarrow> ('w, 'q) Rego \<Rightarrow> 'w DiggerPolicyChecker
     \<Rightarrow> string \<Rightarrow> string \<Rightarrow> string \<Rightarrow> string \<Rightarrow> string \<Rightarrow> 'w \<Rightarrow> (bool \<times> error option) \<times> 'w" where
  "Check parse_url rego p githubOrganisation namespace projectName command requestedBy w =
     (let organisation = DiggerOrganisation (PolicyProvider p) in
      case GetPolicy parse_url (PolicyProvider p) namespace projectName w of
        ((policy, err), w1) \<Rightarrow>
      case ciService_GetUserTeams p githubOrganisation requestedBy w1 of
        ((teams, err), w2) \<Rightarrow>
          (case err of
             Some e \<Rightarrow> ((False, Some e), w2)
           | None \<Rightarrow>
               (let input = policy_input requestedBy organisation teams command projectName in
                if policy = '''' then ((True, None), w2)
                else
                  case PrepareForEval rego ''data.digger.allow'' ''digger'' policy w2 of
                    (Inl err, w3) \<Rightarrow> ((False, Some err), w3)
                  | (Inr query, w3) \<Rightarrow>
                      (case Eval rego query input w3 of
                         ((results, err), w4) \<Rightarrow> (check_results results, w4)))))"

section \<open>Package gitlab\<close>

subsection \<open>Data\<close>

text \<open>
  \<^verbatim>\<open>digger.Project\<close> and \<^verbatim>\<open>digger.ProjectCommand\<close> with the fields the package reads and
  writes. Pointers to \<^verbatim>\<open>int\<close> in \<^verbatim>\<open>GitLabContext\<close> are options; \<^verbatim>\<open>PipelineSourceType\<close> and
  \<^verbatim>\<open>GitLabEventType\<close> are strings, as in the source. No arithmetic is done on the
  identifiers, so they are \<^typ>\<open>int\<close>.
\<close>

record WorkflowConfiguration =
  OnCommitToDefault :: "string list"
  OnPullRequestPushed :: "string list"
  OnPullRequestClosed :: "string list"

record Project =
  Name :: string
  Dir :: string
  Workspace :: string
  Terragrunt :: bool
  WorkflowConfiguration :: WorkflowConfiguration

record ProjectCommand =
  ProjectName :: string
  ProjectDir :: string
  ProjectWorkspace :: string
  Terragrunt :: bool
  Commands :: "string list"

record GitLabContext =
  PipelineSource :: string
  EventType :: string
  PipelineId :: "int option"
  PipelineIId :: "int option"
  MergeRequestId :: "int option"
  MergeRequestIId :: "int option"
  ProjectName :: string
  ProjectNamespace :: string
  ProjectId :: "int option"
  ProjectNamespaceId :: "int option"
  Token :: string
  DiggerCommand :: string

record GitLabEvent =
  EventType :: string

abbreviation MergeRequestOpened :: string where
  "MergeRequestOpened \<equiv> ''merge_request_opened''"

abbreviation MergeRequestUpdated :: string where
  "MergeRequestUpdated \<equiv> ''merge_request_updated''"

abbreviation MergeRequestClosed :: string where
  "MergeRequestClosed \<equiv> ''merge_request_closed''"

abbreviation MergeRequestComment :: string where
  "MergeRequestComment \<equiv> ''merge_request_commented''"

subsection \<open>ConvertGitLabEventToCommands\<close>

text \<open>The struct literal that every branch appends, with the workspace and the commands given.\<close>

definition project_command :: "Project \<Rightarrow> string \<Rightarrow> string list \<Rightarrow> ProjectCommand" where
  "project_command project workspace commands =
     \<lparr>ProjectCommand.ProjectName = Name project,
      ProjectDir = Dir project,
      ProjectWorkspace = workspace,
      ProjectCommand.Terragrunt = Project.Terragrunt project,
      Commands = commands\<rparr>"

text \<open>
  The loop of the three lifecycle branches; they differ in the workflow field read, which is
  \<open>stage\<close>. \<open>commandsPerProject\<close> is the slice appended to.
\<close>

fun lifecycle_loop ::
  "(WorkflowConfiguration \<Rightarrow> string list) \<Rightarrow> Project list \<Rightarrow> ProjectCommand list
     \<Rightarrow> ProjectCommand list" where
  "lifecycle_loop stage [] commandsPerProject = commandsPerProject"
| "lifecycle_loop stage (project # rest) commandsPerProject =
     lifecycle_loop stage rest
       (commandsPerProject @
          [project_command project (Workspace project) (stage (WorkflowConfiguration project))])"

text \<open>The comment branch: the inner loop over the projects, the outer over the vocabulary.\<close>

definition supportedCommands :: "string list" where
  "supportedCommands = [''digger plan'', ''digger apply'', ''digger unlock'', ''digger lock'']"

fun comment_projects_loop ::
  "string \<Rightarrow> Project list \<Rightarrow> ProjectCommand list \<Rightarrow> ProjectCommand list" where
  "comment_projects_loop command [] commandsPerProject = commandsPerProject"
| "comment_projects_loop command (project # rest) commandsPerProject =
     comment_projects_loop command rest
       (commandsPerProject @ [project_command project (Workspace project) [command]])"

fun comment_loop ::
  "string \<Rightarrow> string list \<Rightarrow> Project list \<Rightarrow> ProjectCommand list \<Rightarrow> ProjectCommand list" where
  "comment_loop text [] impactedProjects commandsPerProject = commandsPerProject"
| "comment_loop text (command # rest) impactedProjects commandsPerProject =
     comment_loop text rest impactedProjects
       (if Contains text command
        then comment_projects_loop command impactedProjects commandsPerProject
        else commandsPerProject)"

text \<open>
  \<^verbatim>\<open>%v\<close> on the event prints the struct in braces; its one field has a \<^verbatim>\<open>String\<close> method
  returning the string itself.
\<close>

definition unsupported_event :: "GitLabEvent \<Rightarrow> error" where
  "unsupported_event event =
     ''unsupported GitLab event type: {'' @ GitLabEvent.EventType event @ ''}''"

text \<open>
  \<^verbatim>\<open>gitLabContext\<close> is a pointer, read in the comment branch only (the first iteration over
  the vocabulary reads it); a \<^verbatim>\<open>nil\<close> there is a panic.
\<close>

definition ConvertGitLabEventToCommands ::
  "GitLabEvent \<Rightarrow> GitLabContext option \<Rightarrow> Project list
     \<Rightarrow> go_panic + ProjectCommand list \<times> error option" where
  "ConvertGitLabEventToCommands event gitLabContext impactedProjects =
     (let commandsPerProject = [] in
      if GitLabEvent.EventType event = MergeRequestOpened then
        Inr (lifecycle_loop OnCommitToDefault impactedProjects commandsPerProject, None)
      else if GitLabEvent.EventType event = MergeRequestUpdated then
        Inr (lifecycle_loop OnPullRequestPushed impactedProjects commandsPerProject, None)
      else if GitLabEvent.EventType event = MergeRequestClosed then
        Inr (lifecycle_loop OnPullRequestClosed impactedProjects commandsPerProject, None)
      else if GitLabEvent.EventType event = MergeRequestComment then
        (case gitLabContext of
           None \<Rightarrow> Inl NilPointerDereference
         | Some ctx \<Rightarrow>
             Inr (comment_loop (DiggerCommand ctx) supportedCommands impactedProjects
                    commandsPerProject, None))
      else Inr ([], Some (unsupported_event event)))"

subsection \<open>RunCommandsPerProject\<close>

text \<open>
  \<^verbatim>\<open>utils.ProjectLockImpl\<close> and \<^verbatim>\<open>digger.DiggerExecutor\<close> as the function fills them. The
  lock, the CI service and the configuration are handles that the function passes on
  unread and unchanged for the whole batch; they are what the collaborators below close
  over. The executor's literal is positional, so its fields are named after what the
  function puts in them.
\<close>

record ProjectLockImpl =
  ProjectName :: string
  RepoName :: string
  RepoOwner :: string

record DiggerExecutor =
  ex_workingDir :: string
  ex_workspace :: string
  ex_repoOwner :: string
  ex_projectName :: string
  ex_projectDir :: string
  ex_repoName :: string
  ex_terragrunt :: bool
  ex_projectLock :: ProjectLockImpl

text \<open>
  What the function calls: \<^verbatim>\<open>utils.SendUsageRecord\<close> and the four methods of the
  executor. \<^verbatim>\<open>Lock\<close> is the one whose result is read.
\<close>

record 'w Collaborators =
  SendUsageRecord :: "string \<Rightarrow> string \<Rightarrow> string \<Rightarrow> 'w \<Rightarrow> 'w"
  Plan :: "DiggerExecutor \<Rightarrow> int \<Rightarrow> 'w \<Rightarrow> 'w"
  Apply :: "DiggerExecutor \<Rightarrow> int \<Rightarrow> 'w \<Rightarrow> 'w"
  Unlock :: "DiggerExecutor \<Rightarrow> int \<Rightarrow> 'w \<Rightarrow> 'w"
  Lock :: "DiggerExecutor \<Rightarrow> int \<Rightarrow> 'w \<Rightarrow> bool \<times> 'w"

definition make_executor :: "GitLabContext \<Rightarrow> string \<Rightarrow> ProjectCommand \<Rightarrow> DiggerExecutor" where
  "make_executor gitLabContext wd projectCommands =
     (let projectLock =
            \<lparr>ProjectLockImpl.ProjectName = ProjectCommand.ProjectName projectCommands,
             RepoName = GitLabContext.ProjectName gitLabContext,
             RepoOwner = ProjectNamespace gitLabContext\<rparr>
      in \<lparr>ex_workingDir = wd,
          ex_workspace = ProjectWorkspace projectCommands,
          ex_repoOwner = ProjectNamespace gitLabContext,
          ex_projectName = ProjectCommand.ProjectName projectCommands,
          ex_projectDir = ProjectDir projectCommands,
          ex_repoName = GitLabContext.ProjectName gitLabContext,
          ex_terragrunt = ProjectCommand.Terragrunt projectCommands,
          ex_projectLock = projectLock\<rparr>)"

text \<open>
  The body of the inner loop, for one command string. The usage record is sent first; the
  argument \<^verbatim>\<open>*gitLabContext.MergeRequestIId\<close> is evaluated next and panics on \<^verbatim>\<open>nil\<close>. The
  result is the new value of \<^verbatim>\<open>lockAcquisitionSuccess\<close>.
\<close>

definition run_command ::
  "'w Collaborators \<Rightarrow> GitLabContext \<Rightarrow> string \<Rightarrow> ProjectCommand \<Rightarrow> string \<Rightarrow> bool \<Rightarrow> 'w
     \<Rightarrow> (go_panic + bool) \<times> 'w" where
  "run_command env gitLabContext wd projectCommands command lockAcquisitionSuccess w =
     (let diggerExecutor = make_executor gitLabContext wd projectCommands in
      if command = ''digger plan'' then
        (let w1 = SendUsageRecord env (ProjectNamespace gitLabContext)
                    (GitLabContext.EventType gitLabContext) ''plan'' w in
         case MergeRequestIId gitLabContext of
           None \<Rightarrow> (Inl NilPointerDereference, w1)
         | Some mr \<Rightarrow> (Inr lockAcquisitionSuccess, Plan env diggerExecutor mr w1))
      else if command = ''digger apply'' then
        (let w1 = SendUsageRecord env (GitLabContext.ProjectName gitLabContext)
                    (GitLabContext.EventType gitLabContext) ''apply'' w in
         case MergeRequestIId gitLabContext of
           None \<Rightarrow> (Inl NilPointerDereference, w1)
         | Some mr \<Rightarrow> (Inr lockAcquisitionSuccess, Apply env diggerExecutor mr w1))
      else if command = ''digger unlock'' then
        (let w1 = SendUsageRecord env (ProjectNamespace gitLabContext)
                    (GitLabContext.EventType gitLabContext) ''unlock'' w in
         case MergeRequestIId gitLabContext of
           None \<Rightarrow> (Inl NilPointerDereference, w1)
         | Some mr \<Rightarrow> (Inr lockAcquisitionSuccess, Unlock env diggerExecutor mr w1))
      else if command = ''digger lock'' then
        (let w1 = SendUsageRecord env (ProjectNamespace gitLabContext)
                    (GitLabContext.EventType gitLabContext) ''lock'' w in
         case MergeRequestIId gitLabContext of
           None \<Rightarrow> (Inl NilPointerDereference, w1)
         | Some mr \<Rightarrow>
             (case Lock env diggerExecutor mr w1 of (acquired, w2) \<Rightarrow> (Inr acquired, w2)))
      else (Inr lockAcquisitionSuccess, w))"

fun commands_loop ::
  "'w Collaborators \<Rightarrow> GitLabContext \<Rightarrow> string \<Rightarrow> ProjectCommand \<Rightarrow> string list \<Rightarrow> bool \<Rightarrow> 'w
     \<Rightarrow> (go_panic + bool) \<times> 'w" where
  "commands_loop env gitLabContext wd projectCommands [] lockAcquisitionSuccess w =
     (Inr lockAcquisitionSuccess, w)"
| "commands_loop env gitLabContext wd projectCommands (command # rest) lockAcquisitionSuccess w =
     (case run_command env gitLabContext wd projectCommands command lockAcquisitionSuccess w of
        (Inl p, w') \<Rightarrow> (Inl p, w')
      | (Inr flag, w') \<Rightarrow> commands_loop env gitLabContext wd projectCommands rest flag w')"

fun projects_loop ::
  "'w Collaborators \<Rightarrow> GitLabContext \<Rightarrow> string \<Rightarrow> ProjectCommand list \<Rightarrow> bool \<Rightarrow> 'w
     \<Rightarrow> (go_panic + bool) \<times> 'w" where
  "projects_loop env gitLabContext wd [] lockAcquisitionSuccess w =
     (Inr lockAcquisitionSuccess, w)"
| "projects_loop env gitLabContext wd (projectCommands # rest) lockAcquisitionSuccess w =
     (case commands_loop env gitLabContext wd projectCommands (Commands projectCommands)
             lockAcquisitionSuccess w of
        (Inl p, w') \<Rightarrow> (Inl p, w')
      | (Inr flag, w') \<Rightarrow> projects_loop env gitLabContext wd rest flag w')"

text \<open>How the process leaves the function: it returns an error value, exits, or panics.\<close>

datatype run_end = Returned "error option" | Exited int | Panicked go_panic

definition RunCommandsPerProject ::
  "'w Collaborators \<Rightarrow> ProjectCommand list \<Rightarrow> GitLabContext \<Rightarrow> string \<Rightarrow> 'w \<Rightarrow> run_end \<times> 'w" where
  "RunCommandsPerProject env commandsPerProject gitLabContext wd w =
     (case projects_loop env gitLabContext wd commandsPerProject True w of
        (Inl p, w') \<Rightarrow> (Panicked p, w')
      | (Inr lockAcquisitionSuccess, w') \<Rightarrow>
          if \<not> lockAcquisitionSuccess then (Exited 1, w') else (Returned None, w'))"

section \<open>Collaborators that record their calls\<close>

text \<open>
  To run the functions on concrete inputs, the outside world is instantiated by the list of
  calls received so far, across the interfaces of both packages: the HTTP client, the CI
  service, the policy engine, \<^verbatim>\<open>policy.Checker\<close> (with the decision it gave), the usage
  record and the executor (\<^verbatim>\<open>Lock\<close> with its result).
\<close>

datatype call =
    HttpDo Request
  | GetUserTeams string string
  | RegoPrepare string string string
  | RegoEval
  | CheckerCheck string string string string string bool
  | UsageRecord string string string
  | PlanCall DiggerExecutor int
  | ApplyCall DiggerExecutor int
  | UnlockCall DiggerExecutor int
  | LockCall DiggerExecutor int bool

text \<open>A policy store that answers by URL from a table, and refuses the connection otherwise.\<close>

definition table_client ::
  "(string \<rightharpoonup> Response) \<Rightarrow> Request \<Rightarrow> call list \<Rightarrow> (error + Response) \<times> call list" where
  "table_client table req w =
     (case table (URL req) of None \<Rightarrow> Inl ''connection refused'' | Some resp \<Rightarrow> Inr resp,
      w @ [HttpDo req])"

definition teams_service ::
  "string list \<times> error option \<Rightarrow> string \<Rightarrow> string \<Rightarrow> call list
     \<Rightarrow> (string list \<times> error option) \<times> call list" where
  "teams_service answer organisation user w = (answer, w @ [GetUserTeams organisation user])"

definition fixed_rego :: "error option \<Rightarrow> Result list \<times> error option \<Rightarrow> (call list, unit) Rego" where
  "fixed_rego prepare_error answer =
     \<lparr>PrepareForEval = (\<lambda>query name module w.
        (case prepare_error of Some e \<Rightarrow> Inl e | None \<Rightarrow> Inr (),
         w @ [RegoPrepare query name module])),
      Eval = (\<lambda>q input w. (answer, w @ [RegoEval]))\<rparr>"

definition example_provider :: "(string \<rightharpoonup> Response) \<Rightarrow> call list DiggerHttpPolicyProvider" where
  "example_provider table =
     \<lparr>DiggerHost = ''https://d'', DiggerOrganisation = ''acme'', AuthToken = ''t'',
      HttpClient = table_client table\<rparr>"

definition example_checker ::
  "(string \<rightharpoonup> Response) \<Rightarrow> string list \<times> error option \<Rightarrow> call list DiggerPolicyChecker" where
  "example_checker table answer =
     \<lparr>PolicyProvider = example_provider table, ciService_GetUserTeams = teams_service answer\<rparr>"

abbreviation project_url :: string where
  "project_url \<equiv> ''https://d/repos/g-sub/projects/web/access-policy''"

abbreviation org_url :: string where
  "org_url \<equiv> ''https://d/orgs/acme/access-policy''"

abbreviation found :: "string \<Rightarrow> Response" where
  "found body \<equiv> \<lparr>StatusCode = 200, Body = Inr body\<rparr>"

abbreviation not_found :: Response where
  "not_found \<equiv> \<lparr>StatusCode = 404, Body = Inr ''''\<rparr>"

abbreviation failed :: Response where
  "failed \<equiv> \<lparr>StatusCode = 500, Body = Inr ''boom''\<rparr>"

abbreviation project_get :: Request where
  "project_get \<equiv>
     \<lparr>Method = ''GET'', URL = project_url, Header = [(''Authorization'', ''Bearer t'')]\<rparr>"

abbreviation org_get :: Request where
  "org_get \<equiv>
     \<lparr>Method = ''GET'', URL = org_url, Header = [(''Authorization'', ''Bearer t'')]\<rparr>"

abbreviation expr :: "go_value \<Rightarrow> ExpressionValue" where
  "expr v \<equiv> \<lparr>Value = v, Text = ''data.digger.allow''\<rparr>"

abbreviation ops_checker :: "call list DiggerPolicyChecker" where
  "ops_checker \<equiv> example_checker [project_url \<mapsto> found ''package digger''] ([''ops''], None)"

abbreviation ops_log :: "call list" where
  "ops_log \<equiv> [HttpDo project_get, GetUserTeams ''gh'' ''eve'',
     RegoPrepare ''data.digger.allow'' ''digger'' ''package digger'', RegoEval]"

text \<open>
  An executor that records each call; the result of \<^verbatim>\<open>Lock\<close> is decided by \<open>oracle\<close> from
  the calls so far.
\<close>

definition recording :: "(call list \<Rightarrow> bool) \<Rightarrow> call list Collaborators" where
  "recording oracle =
     \<lparr>SendUsageRecord = (\<lambda>a b c w. w @ [UsageRecord a b c]),
      Plan = (\<lambda>e n w. w @ [PlanCall e n]),
      Apply = (\<lambda>e n w. w @ [ApplyCall e n]),
      Unlock = (\<lambda>e n w. w @ [UnlockCall e n]),
      Lock = (\<lambda>e n w. (oracle w, w @ [LockCall e n (oracle w)]))\<rparr>"

text \<open>Projects, batches and a context to run the functions of package gitlab on.\<close>

definition example_project :: "string \<Rightarrow> Project" where
  "example_project name =
     \<lparr>Name = name, Dir = ''infra/'' @ name, Workspace = ''default'', Project.Terragrunt = False,
      WorkflowConfiguration =
        \<lparr>OnCommitToDefault = [''digger plan''],
         OnPullRequestPushed = [''digger plan''],
         OnPullRequestClosed = [''digger unlock'']\<rparr>\<rparr>"

definition example_context :: "int option \<Rightarrow> string \<Rightarrow> GitLabContext" where
  "example_context mr text =
     \<lparr>PipelineSource = ''merge_request_event'',
      GitLabContext.EventType = MergeRequestComment,
      PipelineId = None, PipelineIId = None, MergeRequestId = None, MergeRequestIId = mr,
      GitLabContext.ProjectName = ''repo'', ProjectNamespace = ''grp'',
      ProjectId = None, ProjectNamespaceId = None, Token = ''t'', DiggerCommand = text\<rparr>"

definition example_command :: "string \<Rightarrow> string list \<Rightarrow> ProjectCommand" where
  "example_command name commands =
     \<lparr>ProjectCommand.ProjectName = name, ProjectDir = ''infra/'' @ name,
      ProjectWorkspace = ''default'', ProjectCommand.Terragrunt = False, Commands = commands\<rparr>"

definition example_executor :: "string \<Rightarrow> DiggerExecutor" where
  "example_executor name =
     \<lparr>ex_workingDir = ''/w'', ex_workspace = ''default'', ex_repoOwner = ''grp'',
      ex_projectName = name, ex_projectDir = ''infra/'' @ name, ex_repoName = ''repo'',
      ex_terragrunt = False,
      ex_projectLock =
        \<lparr>ProjectLockImpl.ProjectName = name, RepoName = ''repo'', RepoOwner = ''grp''\<rparr>\<rparr>"

section \<open>Notions used to state the properties\<close>

text \<open>The request that the provider sends to a URL: a \<^verbatim>\<open>GET\<close> with the bearer credential.\<close>

definition bearer_request :: "'w DiggerHttpPolicyProvider \<Rightarrow> string \<Rightarrow> Request" where
  "bearer_request p url =
     \<lparr>Method = ''GET'', URL = url, Header = [(''Authorization'', ''Bearer '' @ AuthToken p)]\<rparr>"

text \<open>The result list of an evaluation: the expressions of the first result, if there is one.\<close>

definition result_list :: "Result list \<Rightarrow> ExpressionValue list" where
  "result_list results = (case results of [] \<Rightarrow> [] | r # _ \<Rightarrow> Expressions r)"

definition is_boolean :: "go_value \<Rightarrow> bool" where
  "is_boolean v = (case v of VBool _ \<Rightarrow> True | _ \<Rightarrow> False)"

text \<open>
  A log of calls respects authorization when every call of the executor comes after a call
  of \<^verbatim>\<open>Checker.Check\<close> that allowed, with no other executor call in between. \<open>allowed\<close> is the
  decision in force.
\<close>

fun authorized_log :: "bool \<Rightarrow> call list \<Rightarrow> bool" where
  "authorized_log allowed [] = True"
| "authorized_log allowed (CheckerCheck a b c d e decision # rest) = authorized_log decision rest"
| "authorized_log allowed (PlanCall e n # rest) = (allowed \<and> authorized_log False rest)"
| "authorized_log allowed (ApplyCall e n # rest) = (allowed \<and> authorized_log False rest)"
| "authorized_log allowed (UnlockCall e n # rest) = (allowed \<and> authorized_log False rest)"
| "authorized_log allowed (LockCall e n b # rest) = (allowed \<and> authorized_log False rest)"
| "authorized_log allowed (_ # rest) = authorized_log allowed rest"

text \<open>The command strings that a log shows as handed to the executor, with the project.\<close>

fun delegated :: "call list \<Rightarrow> (string \<times> string) list" where
  "delegated [] = []"
| "delegated (PlanCall e n # rest) = (ex_projectName e, ''digger plan'') # delegated rest"
| "delegated (ApplyCall e n # rest) = (ex_projectName e, ''digger apply'') # delegated rest"
| "delegated (UnlockCall e n # rest) = (ex_projectName e, ''digger unlock'') # delegated rest"
| "delegated (LockCall e n b # rest) = (ex_projectName e, ''digger lock'') # delegated rest"
| "delegated (_ # rest) = delegated rest"

fun is_check :: "call \<Rightarrow> bool" where
  "is_check (CheckerCheck a b c d e decision) = True"
| "is_check _ = False"

text \<open>The commands of a batch in the order of the two loops, each with its project.\<close>

definition batch_commands :: "ProjectCommand list \<Rightarrow> (string \<times> string) list" where
  "batch_commands commandsPerProject =
     concat (map (\<lambda>pc. map (\<lambda>command. (ProjectCommand.ProjectName pc, command)) (Commands pc))
       commandsPerProject)"

text \<open>The results of the lock acquisitions in a log, in order.\<close>

fun lock_results :: "call list \<Rightarrow> bool list" where
  "lock_results [] = []"
| "lock_results (LockCall e n b # rest) = b # lock_results rest"
| "lock_results (_ # rest) = lock_results rest"

text \<open>
  The value of \<^verbatim>\<open>lockAcquisitionSuccess\<close> after acquisitions with results \<open>bs\<close>, starting from
  \<open>flag\<close>: each acquisition overwrites it.
\<close>

definition flag_after :: "bool \<Rightarrow> bool list \<Rightarrow> bool" where
  "flag_after flag bs = (if bs = [] then flag else last bs)"

section \<open>Properties\<close>

subsection \<open>Auxiliary facts\<close>

text \<open>\<^const>\<open>Contains\<close> is the contiguous-sublist relation of the library.\<close>

lemma Contains_sublist: "Contains s substr = sublist substr s"
  by (induction s) (auto simp: sublist_Cons_right)

lemma FormatInt_500: "FormatInt 500 = ''500''"
  by code_simp

lemma FormatInt_examples:
  "FormatInt 0 = ''0''" "FormatInt 404 = ''404''" "FormatInt 1203 = ''1203''"
  "FormatInt (- 7) = ''-7''"
  by code_simp+

lemma ReplaceAll_examples:
  "ReplaceAll ''group/sub/team'' ''/'' ''-'' = ''group-sub-team''"
  "ReplaceAll ''plain'' ''/'' ''-'' = ''plain''"
  by simp_all

lemma send_with_token_response:
  assumes "parse_url url = None"
    and "HttpClient p (bearer_request p url) w = (Inr r, w')"
  shows "send_with_token p (NewRequest parse_url ''GET'' url) w =
     (Inr (case Body r of Inl e \<Rightarrow> '''' | Inr b \<Rightarrow> b, r), w')"
  using assms
  by (simp add: send_with_token_def NewRequest_def Header_Add_def bearer_request_def
      split: sum.splits)

lemmas example_defs =
  example_checker_def example_provider_def table_client_def teams_service_def fixed_rego_def
  bearer_request_def namespace_url_def organisation_url_def

text \<open>\<^const>\<open>GetPolicy\<close> on the example stores, from any log.\<close>

lemma GetPolicy_example_found:
  "GetPolicy (\<lambda>_. None) (example_provider [project_url \<mapsto> found body]) ''g/sub'' ''web'' w =
     ((body, None), w @ [HttpDo project_get])"
  by (simp add: GetPolicy_def getPolicyForNamespace_def send_with_token_def NewRequest_def
      Header_Add_def example_defs)

lemma GetPolicy_example_none:
  "GetPolicy (\<lambda>_. None) (example_provider [project_url \<mapsto> not_found, org_url \<mapsto> not_found])
      ''g/sub'' ''web'' w = (('''', None), w @ [HttpDo project_get, HttpDo org_get])"
  by (simp add: GetPolicy_def getPolicyForNamespace_def getPolicyForOrganisation_def
      send_with_token_def NewRequest_def Header_Add_def example_defs)

lemma GetPolicy_example_500:
  "GetPolicy (\<lambda>_. None)
      (example_provider [project_url \<mapsto> \<lparr>StatusCode = 500, Body = Inr ''boom''\<rparr>])
      ''g/sub'' ''web'' w =
     (('''', Some ''unexpected response while fetching org policy: boom code 500''),
      w @ [HttpDo project_get])"
  by (simp add: GetPolicy_def getPolicyForNamespace_def send_with_token_def NewRequest_def
      Header_Add_def example_defs unexpected_project_def FormatInt_500)

text \<open>Every error return of \<^const>\<open>GetPolicy\<close> carries the empty policy text.\<close>

lemma GetPolicy_error_empty_text:
  "GetPolicy parse_url p namespace projectName w = ((policy, Some e), w1) \<Longrightarrow> policy = ''''"
  by (auto simp: GetPolicy_def split: prod.splits sum.splits if_splits)

text \<open>A body that cannot be read counts as an empty one, without an error.\<close>

lemma GetPolicy_unreadable_body:
  assumes "parse_url (namespace_url p namespace projectName) = None"
    and "HttpClient p (bearer_request p (namespace_url p namespace projectName)) w = (Inr r, w1)"
    and "StatusCode r = 200"
    and "Body r = Inl e"
  shows "GetPolicy parse_url p namespace projectName w = (('''', None), w1)"
  using assms by (simp add: GetPolicy_def getPolicyForNamespace_def send_with_token_response)

text \<open>The loop over the expressions, and what precedes it.\<close>

lemma check_expressions_all_true:
  "check_expressions xs = (True, None) \<longleftrightarrow> (\<forall>x\<in>set xs. Value x = VBool True)"
  by (induction xs) (auto split: go_value.splits)

lemma check_expressions_first_offender:
  assumes "\<forall>y\<in>set pre. Value y = VBool True"
  shows "check_expressions (pre @ x # rest) =
     (case Value x of
        VBool decision \<Rightarrow> if decision then check_expressions rest else (False, None)
      | _ \<Rightarrow> (False, Some ''decision is not a boolean''))"
  using assms by (induction pre) (auto split: go_value.splits)

lemma check_results_result_list:
  "check_results results =
     (if result_list results = [] then (False, Some ''no result found'')
      else check_expressions (result_list results))"
  by (simp add: check_results_def result_list_def split: list.splits)

lemma Check_evaluated:
  assumes "GetPolicy parse_url (PolicyProvider p) namespace projectName w = ((policy, fetch_err), w1)"
    and "policy \<noteq> ''''"
    and "ciService_GetUserTeams p githubOrganisation requestedBy w1 = ((teams, None), w2)"
    and "PrepareForEval rego ''data.digger.allow'' ''digger'' policy w2 = (Inr query, w3)"
    and "Eval rego query
           (policy_input requestedBy (DiggerOrganisation (PolicyProvider p)) teams command projectName)
           w3 = ((results, eval_err), w4)"
  shows "Check parse_url rego p githubOrganisation namespace projectName command requestedBy w =
     (check_results results, w4)"
  using assms by (simp add: Check_def)

lemma Check_example:
  "Check (\<lambda>_. None) (fixed_rego None (results, None)) ops_checker
     ''gh'' ''g/sub'' ''web'' ''digger apply'' ''eve'' [] = (check_results results, ops_log)"
  using GetPolicy_example_found [of "''package digger''" "[]"]
  by (simp add: Check_def example_checker_def teams_service_def fixed_rego_def)

text \<open>An engine that cannot prepare the policy gives a denial with the engine's error.\<close>

lemma Check_prepare_error:
  assumes "GetPolicy parse_url (PolicyProvider p) namespace projectName w = ((policy, fetch_err), w1)"
    and "policy \<noteq> ''''"
    and "ciService_GetUserTeams p githubOrganisation requestedBy w1 = ((teams, None), w2)"
    and "PrepareForEval rego ''data.digger.allow'' ''digger'' policy w2 = (Inl e, w3)"
  shows "Check parse_url rego p githubOrganisation namespace projectName command requestedBy w =
     ((False, Some e), w3)"
  using assms by (simp add: Check_def)

text \<open>The loops of \<^const>\<open>ConvertGitLabEventToCommands\<close> append a map of the projects.\<close>

lemma lifecycle_loop_map:
  "lifecycle_loop stage ps acc =
     acc @ map (\<lambda>p. project_command p (Workspace p) (stage (WorkflowConfiguration p))) ps"
  by (induction ps arbitrary: acc) simp_all

lemma comment_projects_loop_map:
  "comment_projects_loop command ps acc =
     acc @ map (\<lambda>p. project_command p (Workspace p) [command]) ps"
  by (induction ps arbitrary: acc) simp_all

lemma comment_loop_concat:
  "comment_loop text phrases ps acc =
     acc @ concat (map (\<lambda>phrase. map (\<lambda>p. project_command p (Workspace p) [phrase]) ps)
                     (filter (Contains text) phrases))"
  by (induction phrases arbitrary: acc) (simp_all add: comment_projects_loop_map)

lemma Contains_examples:
  "filter (Contains ''please run digger plan'')
     [''digger plan'', ''digger apply'', ''digger unlock'', ''digger lock''] = [''digger plan'']"
  "filter (Contains ''digger plan digger apply'')
     [''digger plan'', ''digger apply'', ''digger unlock'', ''digger lock''] =
       [''digger plan'', ''digger apply'']"
  "filter (Contains ''digger apply, then digger plan'')
     [''digger plan'', ''digger apply'', ''digger unlock'', ''digger lock''] =
       [''digger plan'', ''digger apply'']"
  "filter (Contains ''looks good to me'')
     [''digger plan'', ''digger apply'', ''digger unlock'', ''digger lock''] = []"
  by simp_all

text \<open>A comment event with no context panics.\<close>

lemma ConvertGitLabEventToCommands_nil_context:
  "ConvertGitLabEventToCommands \<lparr>GitLabEvent.EventType = MergeRequestComment\<rparr> None ps =
     Inl NilPointerDereference"
  by (simp add: ConvertGitLabEventToCommands_def)

text \<open>Logs of the recording executor.\<close>

lemma delegated_append: "delegated (xs @ ys) = delegated xs @ delegated ys"
  by (induction xs rule: delegated.induct) simp_all

lemma lock_results_append: "lock_results (xs @ ys) = lock_results xs @ lock_results ys"
  by (induction xs rule: lock_results.induct) simp_all

lemma flag_after_append: "flag_after flag (xs @ ys) = flag_after (flag_after flag xs) ys"
  by (simp add: flag_after_def)

text \<open>One command against the recording executor: what is appended to the log.\<close>

lemma run_command_recording:
  assumes "MergeRequestIId gitLabContext = Some mr"
  shows "\<exists>calls.
     run_command (recording oracle) gitLabContext wd pc command flag w =
       (Inr (flag_after flag (lock_results calls)), w @ calls)
     \<and> delegated calls =
         (if command \<in> set supportedCommands then [(ProjectCommand.ProjectName pc, command)] else [])
     \<and> (\<forall>c\<in>set calls. \<not> is_check c)"
proof -
  let ?e = "make_executor gitLabContext wd pc"
  let ?event = "GitLabContext.EventType gitLabContext"
  let ?usage = "UsageRecord (ProjectNamespace gitLabContext) ?event"
  have name: "ex_projectName ?e = ProjectCommand.ProjectName pc"
    by (simp add: make_executor_def)
  consider (is_plan) "command = ''digger plan''" | (is_apply) "command = ''digger apply''"
    | (is_unlock) "command = ''digger unlock''" | (is_lock) "command = ''digger lock''"
    | (is_other) "command \<notin> set supportedCommands"
    by (auto simp: supportedCommands_def)
  then show ?thesis
  proof cases
    case is_plan
    show ?thesis
      by (rule exI [of _ "[?usage ''plan'', PlanCall ?e mr]"])
        (simp add: is_plan assms run_command_def recording_def supportedCommands_def flag_after_def
          name)
  next
    case is_apply
    show ?thesis
      by (rule exI [of _ "[UsageRecord (GitLabContext.ProjectName gitLabContext) ?event ''apply'',
            ApplyCall ?e mr]"])
        (simp add: is_apply assms run_command_def recording_def supportedCommands_def flag_after_def
          name)
  next
    case is_unlock
    show ?thesis
      by (rule exI [of _ "[?usage ''unlock'', UnlockCall ?e mr]"])
        (simp add: is_unlock assms run_command_def recording_def supportedCommands_def
          flag_after_def name)
  next
    case is_lock
    show ?thesis
      by (rule exI [of _ "[?usage ''lock'', LockCall ?e mr (oracle (w @ [?usage ''lock'']))]"])
        (simp add: is_lock assms run_command_def recording_def supportedCommands_def flag_after_def
          name Let_def)
  next
    case is_other
    then show ?thesis
      by (intro exI [of _ "[]"]) (auto simp: run_command_def supportedCommands_def flag_after_def)
  qed
qed

lemma commands_loop_recording:
  assumes "MergeRequestIId gitLabContext = Some mr"
  shows "\<exists>calls.
     commands_loop (recording oracle) gitLabContext wd pc commands flag w =
       (Inr (flag_after flag (lock_results calls)), w @ calls)
     \<and> delegated calls =
         filter (\<lambda>(project, command). command \<in> set supportedCommands)
           (map (\<lambda>command. (ProjectCommand.ProjectName pc, command)) commands)
     \<and> (\<forall>c\<in>set calls. \<not> is_check c)"
proof (induction commands arbitrary: flag w)
  case Nil
  show ?case by (simp add: flag_after_def)
next
  case (Cons command rest)
  obtain calls1 where 1:
    "run_command (recording oracle) gitLabContext wd pc command flag w =
       (Inr (flag_after flag (lock_results calls1)), w @ calls1)"
    "delegated calls1 =
       (if command \<in> set supportedCommands then [(ProjectCommand.ProjectName pc, command)] else [])"
    "\<forall>c\<in>set calls1. \<not> is_check c"
    using run_command_recording [OF assms] by blast
  obtain calls2 where 2:
    "commands_loop (recording oracle) gitLabContext wd pc rest
        (flag_after flag (lock_results calls1)) (w @ calls1) =
       (Inr (flag_after (flag_after flag (lock_results calls1)) (lock_results calls2)),
        (w @ calls1) @ calls2)"
    "delegated calls2 =
         filter (\<lambda>(project, command). command \<in> set supportedCommands)
           (map (\<lambda>command. (ProjectCommand.ProjectName pc, command)) rest)"
    "\<forall>c\<in>set calls2. \<not> is_check c"
    using Cons.IH by blast
  show ?case
    by (rule exI [of _ "calls1 @ calls2"])
      (use 1 2 in \<open>auto simp: delegated_append lock_results_append flag_after_append\<close>)
qed

lemma projects_loop_recording:
  assumes "MergeRequestIId gitLabContext = Some mr"
  shows "\<exists>calls.
     projects_loop (recording oracle) gitLabContext wd batch flag w =
       (Inr (flag_after flag (lock_results calls)), w @ calls)
     \<and> delegated calls =
         filter (\<lambda>(project, command). command \<in> set supportedCommands) (batch_commands batch)
     \<and> (\<forall>c\<in>set calls. \<not> is_check c)"
proof (induction batch arbitrary: flag w)
  case Nil
  show ?case by (simp add: flag_after_def batch_commands_def)
next
  case (Cons pc rest)
  obtain calls1 where 1:
    "commands_loop (recording oracle) gitLabContext wd pc (Commands pc) flag w =
       (Inr (flag_after flag (lock_results calls1)), w @ calls1)"
    "delegated calls1 =
         filter (\<lambda>(project, command). command \<in> set supportedCommands)
           (map (\<lambda>command. (ProjectCommand.ProjectName pc, command)) (Commands pc))"
    "\<forall>c\<in>set calls1. \<not> is_check c"
    using commands_loop_recording [OF assms] by blast
  obtain calls2 where 2:
    "projects_loop (recording oracle) gitLabContext wd rest
        (flag_after flag (lock_results calls1)) (w @ calls1) =
       (Inr (flag_after (flag_after flag (lock_results calls1)) (lock_results calls2)),
        (w @ calls1) @ calls2)"
    "delegated calls2 =
         filter (\<lambda>(project, command). command \<in> set supportedCommands) (batch_commands rest)"
    "\<forall>c\<in>set calls2. \<not> is_check c"
    using Cons.IH by blast
  show ?case
    by (rule exI [of _ "calls1 @ calls2"])
      (use 1 2 in \<open>auto simp: delegated_append lock_results_append flag_after_append
          batch_commands_def\<close>)
qed

text \<open>
  Against the recording executor and without a panic, the run exits with status 1 exactly
  when the last acquisition in the log returned false.
\<close>

lemma RunCommandsPerProject_last_lock_decides:
  assumes "MergeRequestIId gitLabContext = Some mr"
    and "run = RunCommandsPerProject (recording oracle) commandsPerProject gitLabContext wd []"
  shows "fst run =
     (if lock_results (snd run) \<noteq> [] \<and> \<not> last (lock_results (snd run)) then Exited 1
      else Returned None)"
proof -
  obtain calls where
    "projects_loop (recording oracle) gitLabContext wd commandsPerProject True [] =
       (Inr (flag_after True (lock_results calls)), [] @ calls)"
    using projects_loop_recording [OF assms(1)] by blast
  then show ?thesis
    using assms(2) by (simp add: RunCommandsPerProject_def flag_after_def)
qed

subsection \<open>The policy provider\<close>

text \<open>
  Claim C6. \<^verbatim>\<open>GetPolicy\<close> asks the project endpoint first. On status 200 it returns that
  body as it is, and on a status other than 200 and 404 it returns an error whose message
  holds the body and the status in decimal; in both cases nothing is assumed of the
  organisation endpoint, and the world returned is the one left by the single project
  request, so that endpoint has not been asked. On 404 it asks the organisation endpoint
  next: 200 gives that body, 404 gives the empty text without an error, and any other
  status gives an error whose message holds that body and that status.
\<close>

theorem GetPolicy_two_level_fallback:
  assumes "parse_url (namespace_url p namespace projectName) = None"
    and "HttpClient p (bearer_request p (namespace_url p namespace projectName)) w = (Inr r1, w1)"
    and "Body r1 = Inr body1"
  shows "(StatusCode r1 = 200 \<longrightarrow>
            GetPolicy parse_url p namespace projectName w = ((body1, None), w1))
     \<and> (StatusCode r1 \<noteq> 200 \<and> StatusCode r1 \<noteq> 404 \<longrightarrow>
            GetPolicy parse_url p namespace projectName w =
              (('''', Some (''unexpected response while fetching org policy: '' @ body1
                   @ '' code '' @ FormatInt (StatusCode r1))), w1))
     \<and> (StatusCode r1 = 404 \<longrightarrow>
          (\<forall>r2 w2 body2.
             parse_url (organisation_url p) = None
             \<and> HttpClient p (bearer_request p (organisation_url p)) w1 = (Inr r2, w2)
             \<and> Body r2 = Inr body2 \<longrightarrow>
             GetPolicy parse_url p namespace projectName w =
               (if StatusCode r2 = 200 then ((body2, None), w2)
                else if StatusCode r2 = 404 then (('''', None), w2)
                else (('''', Some (''unexpected response while fetching organisation policy: ''
                         @ body2 @ '', code '' @ FormatInt (StatusCode r2))), w2))))"
proof -
  have project: "getPolicyForNamespace parse_url p namespace projectName w = (Inr (body1, r1), w1)"
    using assms by (simp add: getPolicyForNamespace_def send_with_token_response)
  have found: "GetPolicy parse_url p namespace projectName w = ((body1, None), w1)"
    if "StatusCode r1 = 200"
    using that by (simp add: GetPolicy_def project)
  have unexpected: "GetPolicy parse_url p namespace projectName w =
      (('''', Some (''unexpected response while fetching org policy: '' @ body1
           @ '' code '' @ FormatInt (StatusCode r1))), w1)"
    if "StatusCode r1 \<noteq> 200 \<and> StatusCode r1 \<noteq> 404"
    using that by (simp add: GetPolicy_def project unexpected_project_def)
  have fallback: "GetPolicy parse_url p namespace projectName w =
      (if StatusCode r2 = 200 then ((body2, None), w2)
       else if StatusCode r2 = 404 then (('''', None), w2)
       else (('''', Some (''unexpected response while fetching organisation policy: ''
                @ body2 @ '', code '' @ FormatInt (StatusCode r2))), w2))"
    if "StatusCode r1 = 404" and "parse_url (organisation_url p) = None"
      and "HttpClient p (bearer_request p (organisation_url p)) w1 = (Inr r2, w2)"
      and "Body r2 = Inr body2"
    for r2 w2 body2
  proof -
    have "getPolicyForOrganisation parse_url p w1 = (Inr (body2, r2), w2)"
      using that by (simp add: getPolicyForOrganisation_def send_with_token_response)
    then show ?thesis
      using that(1) by (simp add: GetPolicy_def project unexpected_organisation_def)
  qed
  from found unexpected fallback show ?thesis by blast
qed

text \<open>
  The five outcomes on the example store; the log shows which endpoints were asked. In the
  first two the organisation endpoint is not in the table and would refuse the connection.
  A project-level 500 gives an error that mentions 500.
\<close>

theorem GetPolicy_two_level_fallback_witness:
  "GetPolicy (\<lambda>_. None) (example_provider [project_url \<mapsto> found ''P''])
      ''g/sub'' ''web'' [] = ((''P'', None), [HttpDo project_get])
   \<and> GetPolicy (\<lambda>_. None) (example_provider [project_url \<mapsto> failed])
      ''g/sub'' ''web'' [] =
        (('''', Some ''unexpected response while fetching org policy: boom code 500''),
         [HttpDo project_get])
   \<and> GetPolicy (\<lambda>_. None) (example_provider [project_url \<mapsto> not_found, org_url \<mapsto> found ''O''])
      ''g/sub'' ''web'' [] = ((''O'', None), [HttpDo project_get, HttpDo org_get])
   \<and> GetPolicy (\<lambda>_. None) (example_provider [project_url \<mapsto> not_found, org_url \<mapsto> not_found])
      ''g/sub'' ''web'' [] = (('''', None), [HttpDo project_get, HttpDo org_get])
   \<and> GetPolicy (\<lambda>_. None) (example_provider [project_url \<mapsto> not_found, org_url \<mapsto> failed])
      ''g/sub'' ''web'' [] =
        (('''', Some ''unexpected response while fetching organisation policy: boom, code 500''),
         [HttpDo project_get, HttpDo org_get])"
proof -
  have a: "GetPolicy (\<lambda>_. None) (example_provider [project_url \<mapsto> found ''P''])
      ''g/sub'' ''web'' [] = ((''P'', None), [HttpDo project_get])"
    using GetPolicy_two_level_fallback [of "\<lambda>_. None"
        "example_provider [project_url \<mapsto> found ''P'']" "''g/sub''" "''web''" "[]"
        "found ''P''" "[HttpDo project_get]" "''P''"]
    by (simp add: example_defs)
  have b: "GetPolicy (\<lambda>_. None) (example_provider [project_url \<mapsto> failed])
      ''g/sub'' ''web'' [] =
        (('''', Some ''unexpected response while fetching org policy: boom code 500''),
         [HttpDo project_get])"
    using GetPolicy_two_level_fallback [of "\<lambda>_. None"
        "example_provider [project_url \<mapsto> failed]" "''g/sub''" "''web''" "[]"
        "failed" "[HttpDo project_get]" "''boom''"]
    by (simp add: example_defs FormatInt_500)
  have fallback: "GetPolicy (\<lambda>_. None)
        (example_provider [project_url \<mapsto> not_found, org_url \<mapsto> r2]) ''g/sub'' ''web'' [] =
      (if StatusCode r2 = 200 then ((body2, None), [HttpDo project_get, HttpDo org_get])
       else if StatusCode r2 = 404 then (('''', None), [HttpDo project_get, HttpDo org_get])
       else (('''', Some (''unexpected response while fetching organisation policy: ''
                @ body2 @ '', code '' @ FormatInt (StatusCode r2))),
             [HttpDo project_get, HttpDo org_get]))"
    if "Body r2 = Inr body2" for r2 body2
    using that
      GetPolicy_two_level_fallback [of "\<lambda>_. None"
        "example_provider [project_url \<mapsto> not_found, org_url \<mapsto> r2]" "''g/sub''" "''web''" "[]"
        "not_found" "[HttpDo project_get]" "''''",
        THEN conjunct2, THEN conjunct2, rule_format,
        of r2 "[HttpDo project_get, HttpDo org_get]" body2]
    by (simp add: example_defs)
  have c: "GetPolicy (\<lambda>_. None)
        (example_provider [project_url \<mapsto> not_found, org_url \<mapsto> found ''O''])
        ''g/sub'' ''web'' [] = ((''O'', None), [HttpDo project_get, HttpDo org_get])"
    using fallback [of "found ''O''" "''O''"] by simp
  have d: "GetPolicy (\<lambda>_. None)
        (example_provider [project_url \<mapsto> not_found, org_url \<mapsto> not_found])
        ''g/sub'' ''web'' [] = (('''', None), [HttpDo project_get, HttpDo org_get])"
    using fallback [of not_found "''''"] by simp
  have e: "GetPolicy (\<lambda>_. None)
        (example_provider [project_url \<mapsto> not_found, org_url \<mapsto> failed])
        ''g/sub'' ''web'' [] =
      (('''', Some ''unexpected response while fetching organisation policy: boom, code 500''),
       [HttpDo project_get, HttpDo org_get])"
    using fallback [of failed "''boom''"] by (simp add: FormatInt_500)
  from a b c d e show ?thesis by simp
qed

subsection \<open>The authorizer\<close>

text \<open>
  Claim C10. \<^verbatim>\<open>NoOpPolicyChecker.Check\<close> allows every request, whatever the organisation,
  namespace, project, command and requester, and leaves the world as it was: it calls
  neither a policy provider nor the CI service.
\<close>

theorem NoOpPolicyChecker_always_allows:
  "NoOpPolicyChecker_Check organisation namespace project command requestedBy w = ((True, None), w)"
  by (simp add: NoOpPolicyChecker_Check_def)

text \<open>
  Claim C7. When the lookup of the requester's teams fails, \<^verbatim>\<open>Check\<close> returns \<^verbatim>\<open>false\<close> with
  that error, whatever the policy fetch gave before.
\<close>

theorem Check_teams_failure_denies:
  assumes "GetPolicy parse_url (PolicyProvider p) namespace projectName w = (fetched, w1)"
    and "ciService_GetUserTeams p githubOrganisation requestedBy w1 = ((teams, Some e), w2)"
  shows "Check parse_url rego p githubOrganisation namespace projectName command requestedBy w =
     ((False, Some e), w2)"
  using assms by (cases fetched) (simp add: Check_def)

theorem Check_teams_failure_denies_witness:
  "Check (\<lambda>_. None) (fixed_rego None ([], None))
     (example_checker [project_url \<mapsto> found ''package digger''] ([], Some ''teams: 503''))
     ''gh'' ''g/sub'' ''web'' ''digger apply'' ''eve'' [] =
   ((False, Some ''teams: 503''), [HttpDo project_get, GetUserTeams ''gh'' ''eve''])"
  using Check_teams_failure_denies [of "\<lambda>_. None"
      "example_checker [project_url \<mapsto> found ''package digger''] ([], Some ''teams: 503'')"
      "''g/sub''" "''web''" "[]" "(''package digger'', None)" "[HttpDo project_get]"
      "''gh''" "''eve''" "[]" "''teams: 503''" "[HttpDo project_get, GetUserTeams ''gh'' ''eve'']"
      "fixed_rego None ([], None)" "''digger apply''"]
    GetPolicy_example_found [of "''package digger''" "[]"]
  by (simp add: example_checker_def teams_service_def)

text \<open>
  Claim C4. When \<^verbatim>\<open>GetPolicy\<close> returns the empty text without an error and the team lookup
  returns teams, \<^verbatim>\<open>Check\<close> returns \<^verbatim>\<open>(true, nil)\<close> for every requester, organisation,
  teams, command and project. The world returned is the one after the team lookup, for
  every engine: the engine is not called.
\<close>

theorem Check_empty_policy_grants:
  assumes "GetPolicy parse_url (PolicyProvider p) namespace projectName w = (('''', None), w1)"
    and "ciService_GetUserTeams p githubOrganisation requestedBy w1 = ((teams, None), w2)"
  shows "Check parse_url rego p githubOrganisation namespace projectName command requestedBy w =
     ((True, None), w2)"
  using assms by (simp add: Check_def)

text \<open>Both endpoints answer 404; the engine would fail, and does not appear in the log.\<close>

theorem Check_empty_policy_grants_witness:
  "Check (\<lambda>_. None) (fixed_rego (Some ''engine down'') ([], Some ''engine down''))
     (example_checker [project_url \<mapsto> not_found, org_url \<mapsto> not_found] ([''dev''], None))
     ''gh'' ''g/sub'' ''web'' ''digger apply'' ''eve'' [] =
   ((True, None), [HttpDo project_get, HttpDo org_get, GetUserTeams ''gh'' ''eve''])"
  using Check_empty_policy_grants [of "\<lambda>_. None"
      "example_checker [project_url \<mapsto> not_found, org_url \<mapsto> not_found] ([''dev''], None)"
      "''g/sub''" "''web''" "[]" "[HttpDo project_get, HttpDo org_get]"
      "''gh''" "''eve''" "[''dev'']" "[HttpDo project_get, HttpDo org_get, GetUserTeams ''gh'' ''eve'']"
      "fixed_rego (Some ''engine down'') ([], Some ''engine down'')" "''digger apply''"]
    GetPolicy_example_none [of "[]"]
  by (simp add: example_checker_def teams_service_def)

text \<open>
  Claim C3. The claim is that an error of \<^verbatim>\<open>GetPolicy\<close> is returned by \<^verbatim>\<open>Check\<close> and never
  becomes a grant. The source overwrites that error with the one of the team lookup before
  reading it. Here the project endpoint answers 500, so \<^verbatim>\<open>GetPolicy\<close> returns an error; the
  team lookup succeeds; \<^verbatim>\<open>Check\<close> returns \<^verbatim>\<open>(true, nil)\<close>.
\<close>

theorem Check_grants_after_policy_fetch_error:
  "GetPolicy (\<lambda>_. None)
      (example_provider [project_url \<mapsto> \<lparr>StatusCode = 500, Body = Inr ''boom''\<rparr>])
      ''g/sub'' ''web'' [] =
     (('''', Some ''unexpected response while fetching org policy: boom code 500''),
      [HttpDo project_get])
   \<and> Check (\<lambda>_. None) (fixed_rego None ([], None))
     (example_checker [project_url \<mapsto> \<lparr>StatusCode = 500, Body = Inr ''boom''\<rparr>] ([''dev''], None))
     ''gh'' ''g/sub'' ''web'' ''digger apply'' ''eve'' [] =
   ((True, None), [HttpDo project_get, GetUserTeams ''gh'' ''eve''])"
  using GetPolicy_example_500 [of "[]"]
  by (simp add: Check_def example_checker_def teams_service_def)

text \<open>The same for every input: a failed policy fetch followed by a team lookup that succeeds.\<close>

lemma Check_policy_error_ignored:
  assumes "GetPolicy parse_url (PolicyProvider p) namespace projectName w = ((policy, Some e), w1)"
    and "ciService_GetUserTeams p githubOrganisation requestedBy w1 = ((teams, None), w2)"
  shows "Check parse_url rego p githubOrganisation namespace projectName command requestedBy w =
     ((True, None), w2)"
  using assms GetPolicy_error_empty_text [OF assms(1)] by (simp add: Check_def)

text \<open>
  Claim C5, as stated: a non-boolean element in the result list gives \<^verbatim>\<open>(false, error)\<close>.
  Here the list is \<^verbatim>\<open>[false, "yes"]\<close>, and \<^verbatim>\<open>Check\<close> returns \<^verbatim>\<open>(false, nil)\<close>: the loop
  has returned at the \<^verbatim>\<open>false\<close> before it reaches the string.
\<close>

theorem Check_false_before_non_boolean:
  "Check (\<lambda>_. None)
     (fixed_rego None ([\<lparr>Expressions = [expr (VBool False), expr (VString ''yes'')]\<rparr>], None))
     ops_checker ''gh'' ''g/sub'' ''web'' ''digger apply'' ''eve'' [] = ((False, None), ops_log)"
  by (simp add: Check_example check_results_def)

text \<open>
  Claim C5, amended. For a non-empty policy that the engine has prepared and evaluated,
  with \<open>d\<close> the pair returned by \<^verbatim>\<open>Check\<close>: \<open>d\<close> is \<^verbatim>\<open>(true, nil)\<close> iff the result list is
  non-empty and every element is the boolean true; an empty result list gives
  \<^verbatim>\<open>(false, error "no result found")\<close>; otherwise the first element that is not the boolean
  true decides: \<^verbatim>\<open>(false, nil)\<close> if it is false,
  \<^verbatim>\<open>(false, error "decision is not a boolean")\<close> if it is not a boolean.
\<close>

theorem Check_decision_rule:
  assumes "GetPolicy parse_url (PolicyProvider p) namespace projectName w = ((policy, fetch_err), w1)"
    and "policy \<noteq> ''''"
    and "ciService_GetUserTeams p githubOrganisation requestedBy w1 = ((teams, None), w2)"
    and "PrepareForEval rego ''data.digger.allow'' ''digger'' policy w2 = (Inr query, w3)"
    and "Eval rego query
           (policy_input requestedBy (DiggerOrganisation (PolicyProvider p)) teams command projectName)
           w3 = ((results, eval_err), w4)"
    and "d = fst (Check parse_url rego p githubOrganisation namespace projectName command requestedBy w)"
  shows "(d = (True, None) \<longleftrightarrow>
            result_list results \<noteq> [] \<and> (\<forall>x\<in>set (result_list results). Value x = VBool True))
     \<and> (result_list results = [] \<longrightarrow> d = (False, Some ''no result found''))
     \<and> (\<forall>pre x rest.
          result_list results = pre @ x # rest \<and> (\<forall>y\<in>set pre. Value y = VBool True) \<longrightarrow>
            (Value x = VBool False \<longrightarrow> d = (False, None))
          \<and> (\<not> is_boolean (Value x) \<longrightarrow> d = (False, Some ''decision is not a boolean'')))"
proof -
  have d: "d = check_results results"
    using Check_evaluated [OF assms(1-5)] assms(6) by simp
  have granted: "d = (True, None) \<longleftrightarrow>
      result_list results \<noteq> [] \<and> (\<forall>x\<in>set (result_list results). Value x = VBool True)"
    by (simp add: d check_results_result_list check_expressions_all_true)
  have none: "result_list results = [] \<longrightarrow> d = (False, Some ''no result found'')"
    by (simp add: d check_results_result_list)
  have offender: "(Value x = VBool False \<longrightarrow> d = (False, None))
      \<and> (\<not> is_boolean (Value x) \<longrightarrow> d = (False, Some ''decision is not a boolean''))"
    if "result_list results = pre @ x # rest" and "\<forall>y\<in>set pre. Value y = VBool True"
    for pre x rest
    using that
    by (simp add: d check_results_result_list check_expressions_first_offender is_boolean_def
        split: go_value.splits)
  from granted none offender show ?thesis by blast
qed

theorem Check_decision_rule_witness:
  "fst (Check (\<lambda>_. None)
     (fixed_rego None ([\<lparr>Expressions = [expr (VBool True), expr (VBool True)]\<rparr>], None))
     ops_checker ''gh'' ''g/sub'' ''web'' ''digger apply'' ''eve'' []) = (True, None)
  \<and> fst (Check (\<lambda>_. None) (fixed_rego None ([\<lparr>Expressions = []\<rparr>], None))
     ops_checker ''gh'' ''g/sub'' ''web'' ''digger apply'' ''eve'' []) = (False, Some ''no result found'')
  \<and> fst (Check (\<lambda>_. None)
     (fixed_rego None ([\<lparr>Expressions = [expr (VBool True), expr (VBool False), expr VNull]\<rparr>], None))
     ops_checker ''gh'' ''g/sub'' ''web'' ''digger apply'' ''eve'' []) = (False, None)
  \<and> fst (Check (\<lambda>_. None)
     (fixed_rego None ([\<lparr>Expressions = [expr (VBool True), expr VNull, expr (VBool False)]\<rparr>], None))
     ops_checker ''gh'' ''g/sub'' ''web'' ''digger apply'' ''eve'' [])
       = (False, Some ''decision is not a boolean'')"
proof -
  let ?run = "\<lambda>results. Check (\<lambda>_. None) (fixed_rego None (results, None))
     ops_checker ''gh'' ''g/sub'' ''web'' ''digger apply'' ''eve'' []"
  have rule: "(fst (?run results) = (True, None) \<longleftrightarrow>
            result_list results \<noteq> [] \<and> (\<forall>x\<in>set (result_list results). Value x = VBool True))
     \<and> (result_list results = [] \<longrightarrow> fst (?run results) = (False, Some ''no result found''))
     \<and> (\<forall>pre x rest.
          result_list results = pre @ x # rest \<and> (\<forall>y\<in>set pre. Value y = VBool True) \<longrightarrow>
            (Value x = VBool False \<longrightarrow> fst (?run results) = (False, None))
          \<and> (\<not> is_boolean (Value x) \<longrightarrow> fst (?run results) = (False, Some ''decision is not a boolean'')))"
    for results
    by (rule Check_decision_rule [where w = "[]" and ?w1.0 = "[HttpDo project_get]"
          and ?w2.0 = "[HttpDo project_get, GetUserTeams ''gh'' ''eve'']"
          and ?w3.0 = "[HttpDo project_get, GetUserTeams ''gh'' ''eve'',
             RegoPrepare ''data.digger.allow'' ''digger'' ''package digger'']"
          and ?w4.0 = ops_log and policy = "''package digger''" and fetch_err = None
          and teams = "[''ops'']" and query = "()" and eval_err = None])
      (simp_all add: example_checker_def teams_service_def fixed_rego_def
        GetPolicy_example_found [of "''package digger''" "[]", simplified])
  have a: "fst (?run [\<lparr>Expressions = [expr (VBool True), expr (VBool True)]\<rparr>]) = (True, None)"
    using rule [of "[\<lparr>Expressions = [expr (VBool True), expr (VBool True)]\<rparr>]"]
    by (simp add: result_list_def)
  have b: "fst (?run [\<lparr>Expressions = []\<rparr>]) = (False, Some ''no result found'')"
    using rule [of "[\<lparr>Expressions = []\<rparr>]"] by (simp add: result_list_def)
  have c: "fst (?run [\<lparr>Expressions = [expr (VBool True), expr (VBool False), expr VNull]\<rparr>])
      = (False, None)"
    using rule [of "[\<lparr>Expressions = [expr (VBool True), expr (VBool False), expr VNull]\<rparr>]",
        THEN conjunct2, THEN conjunct2, rule_format,
        of "[expr (VBool True)]" "expr (VBool False)" "[expr VNull]"]
    by (simp add: result_list_def)
  have d: "fst (?run [\<lparr>Expressions = [expr (VBool True), expr VNull, expr (VBool False)]\<rparr>])
      = (False, Some ''decision is not a boolean'')"
    using rule [of "[\<lparr>Expressions = [expr (VBool True), expr VNull, expr (VBool False)]\<rparr>]",
        THEN conjunct2, THEN conjunct2, rule_format,
        of "[expr (VBool True)]" "expr VNull" "[expr (VBool False)]"]
    by (simp add: result_list_def is_boolean_def)
  from a b c d show ?thesis by simp
qed

subsection \<open>The event router\<close>

text \<open>
  Claim C8. An opened merge request gives one \<^verbatim>\<open>ProjectCommand\<close> per impacted project, in
  order, with the project's name, directory, workspace and Terragrunt flag and its
  \<^verbatim>\<open>OnCommitToDefault\<close> commands; updated gives \<^verbatim>\<open>OnPullRequestPushed\<close> and closed gives
  \<^verbatim>\<open>OnPullRequestClosed\<close>. An event type that is none of opened, updated, closed and
  commented gives no command and the error for an unsupported event type.
\<close>

theorem ConvertGitLabEventToCommands_lifecycle:
  "(GitLabEvent.EventType event = MergeRequestOpened \<longrightarrow>
      ConvertGitLabEventToCommands event gitLabContext impactedProjects =
        Inr (map (\<lambda>p. \<lparr>ProjectCommand.ProjectName = Name p, ProjectDir = Dir p,
                        ProjectWorkspace = Workspace p,
                        ProjectCommand.Terragrunt = Project.Terragrunt p,
                        Commands = OnCommitToDefault (WorkflowConfiguration p)\<rparr>) impactedProjects,
             None))
   \<and> (GitLabEvent.EventType event = MergeRequestUpdated \<longrightarrow>
      ConvertGitLabEventToCommands event gitLabContext impactedProjects =
        Inr (map (\<lambda>p. \<lparr>ProjectCommand.ProjectName = Name p, ProjectDir = Dir p,
                        ProjectWorkspace = Workspace p,
                        ProjectCommand.Terragrunt = Project.Terragrunt p,
                        Commands = OnPullRequestPushed (WorkflowConfiguration p)\<rparr>) impactedProjects,
             None))
   \<and> (GitLabEvent.EventType event = MergeRequestClosed \<longrightarrow>
      ConvertGitLabEventToCommands event gitLabContext impactedProjects =
        Inr (map (\<lambda>p. \<lparr>ProjectCommand.ProjectName = Name p, ProjectDir = Dir p,
                        ProjectWorkspace = Workspace p,
                        ProjectCommand.Terragrunt = Project.Terragrunt p,
                        Commands = OnPullRequestClosed (WorkflowConfiguration p)\<rparr>) impactedProjects,
             None))
   \<and> (GitLabEvent.EventType event \<notin>
         {MergeRequestOpened, MergeRequestUpdated, MergeRequestClosed, MergeRequestComment} \<longrightarrow>
      ConvertGitLabEventToCommands event gitLabContext impactedProjects =
        Inr ([], Some (''unsupported GitLab event type: {'' @ GitLabEvent.EventType event @ ''}'')))"
  by (simp add: ConvertGitLabEventToCommands_def lifecycle_loop_map project_command_def
      unsupported_event_def)

theorem ConvertGitLabEventToCommands_lifecycle_witness:
  "ConvertGitLabEventToCommands \<lparr>GitLabEvent.EventType = MergeRequestOpened\<rparr> None
       [example_project ''a'', example_project ''b''] =
     Inr ([example_command ''a'' [''digger plan''], example_command ''b'' [''digger plan'']], None)
   \<and> ConvertGitLabEventToCommands \<lparr>GitLabEvent.EventType = MergeRequestUpdated\<rparr> None
       [example_project ''a''] = Inr ([example_command ''a'' [''digger plan'']], None)
   \<and> ConvertGitLabEventToCommands \<lparr>GitLabEvent.EventType = MergeRequestClosed\<rparr> None
       [example_project ''a''] = Inr ([example_command ''a'' [''digger unlock'']], None)
   \<and> ConvertGitLabEventToCommands \<lparr>GitLabEvent.EventType = ''merge_request_merged''\<rparr> None
       [example_project ''a''] =
     Inr ([], Some ''unsupported GitLab event type: {merge_request_merged}'')"
  using
    ConvertGitLabEventToCommands_lifecycle [of "\<lparr>GitLabEvent.EventType = MergeRequestOpened\<rparr>"
      None "[example_project ''a'', example_project ''b'']"]
    ConvertGitLabEventToCommands_lifecycle [of "\<lparr>GitLabEvent.EventType = MergeRequestUpdated\<rparr>"
      None "[example_project ''a'']"]
    ConvertGitLabEventToCommands_lifecycle [of "\<lparr>GitLabEvent.EventType = MergeRequestClosed\<rparr>"
      None "[example_project ''a'']"]
    ConvertGitLabEventToCommands_lifecycle [of "\<lparr>GitLabEvent.EventType = ''merge_request_merged''\<rparr>"
      None "[example_project ''a'']"]
  by (simp add: example_project_def example_command_def)

text \<open>
  Claim C9. For a comment event (with a context to read the comment from), the commands
  are: for each phrase of the vocabulary that the comment contains, in the order of the
  vocabulary, one \<^verbatim>\<open>ProjectCommand\<close> per impacted project, in the order of the projects,
  whose commands are that phrase alone. A comment that contains no phrase gives the empty
  list without an error. Containment is occurrence as a contiguous block.
\<close>

theorem ConvertGitLabEventToCommands_comment:
  assumes "GitLabEvent.EventType event = MergeRequestComment"
    and "gitLabContext = Some ctx"
  shows "ConvertGitLabEventToCommands event gitLabContext impactedProjects =
       Inr (concat (map (\<lambda>phrase.
                      map (\<lambda>p. \<lparr>ProjectCommand.ProjectName = Name p, ProjectDir = Dir p,
                                ProjectWorkspace = Workspace p,
                                ProjectCommand.Terragrunt = Project.Terragrunt p,
                                Commands = [phrase]\<rparr>) impactedProjects)
                 (filter (Contains (DiggerCommand ctx))
                    [''digger plan'', ''digger apply'', ''digger unlock'', ''digger lock''])),
            None)
     \<and> ((\<forall>phrase\<in>{''digger plan'', ''digger apply'', ''digger unlock'', ''digger lock''}.
            \<not> Contains (DiggerCommand ctx) phrase) \<longrightarrow>
          ConvertGitLabEventToCommands event gitLabContext impactedProjects = Inr ([], None))
     \<and> (\<forall>phrase. Contains (DiggerCommand ctx) phrase \<longleftrightarrow>
           (\<exists>before after. DiggerCommand ctx = before @ phrase @ after))"
proof -
  have eq: "ConvertGitLabEventToCommands event gitLabContext impactedProjects =
       Inr (concat (map (\<lambda>phrase.
                      map (\<lambda>p. \<lparr>ProjectCommand.ProjectName = Name p, ProjectDir = Dir p,
                                ProjectWorkspace = Workspace p,
                                ProjectCommand.Terragrunt = Project.Terragrunt p,
                                Commands = [phrase]\<rparr>) impactedProjects)
                 (filter (Contains (DiggerCommand ctx))
                    [''digger plan'', ''digger apply'', ''digger unlock'', ''digger lock''])),
            None)"
    using assms
    by (simp add: ConvertGitLabEventToCommands_def comment_loop_concat supportedCommands_def
        project_command_def)
  have none: "ConvertGitLabEventToCommands event gitLabContext impactedProjects = Inr ([], None)"
    if "\<forall>phrase\<in>{''digger plan'', ''digger apply'', ''digger unlock'', ''digger lock''}.
            \<not> Contains (DiggerCommand ctx) phrase"
    using that by (simp add: eq)
  have sub: "Contains (DiggerCommand ctx) phrase \<longleftrightarrow>
           (\<exists>before after. DiggerCommand ctx = before @ phrase @ after)" for phrase
    by (simp add: Contains_sublist sublist_def)
  from eq none sub show ?thesis by blast
qed

text \<open>
  One phrase; two phrases firing both; two phrases and two projects, where the order is
  that of the vocabulary, not of the comment; no phrase.
\<close>

theorem ConvertGitLabEventToCommands_comment_witness:
  "ConvertGitLabEventToCommands \<lparr>GitLabEvent.EventType = MergeRequestComment\<rparr>
       (Some (example_context (Some 7) ''please run digger plan'')) [example_project ''a''] =
     Inr ([example_command ''a'' [''digger plan'']], None)
   \<and> ConvertGitLabEventToCommands \<lparr>GitLabEvent.EventType = MergeRequestComment\<rparr>
       (Some (example_context (Some 7) ''digger plan digger apply'')) [example_project ''a''] =
     Inr ([example_command ''a'' [''digger plan''], example_command ''a'' [''digger apply'']], None)
   \<and> ConvertGitLabEventToCommands \<lparr>GitLabEvent.EventType = MergeRequestComment\<rparr>
       (Some (example_context (Some 7) ''digger apply, then digger plan''))
       [example_project ''a'', example_project ''b''] =
     Inr ([example_command ''a'' [''digger plan''], example_command ''b'' [''digger plan''],
           example_command ''a'' [''digger apply''], example_command ''b'' [''digger apply'']], None)
   \<and> ConvertGitLabEventToCommands \<lparr>GitLabEvent.EventType = MergeRequestComment\<rparr>
       (Some (example_context (Some 7) ''looks good to me'')) [example_project ''a''] =
     Inr ([], None)"
  using
    ConvertGitLabEventToCommands_comment [of "\<lparr>GitLabEvent.EventType = MergeRequestComment\<rparr>"
      "Some (example_context (Some 7) ''please run digger plan'')"
      "example_context (Some 7) ''please run digger plan''" "[example_project ''a'']"]
    ConvertGitLabEventToCommands_comment [of "\<lparr>GitLabEvent.EventType = MergeRequestComment\<rparr>"
      "Some (example_context (Some 7) ''digger plan digger apply'')"
      "example_context (Some 7) ''digger plan digger apply''" "[example_project ''a'']"]
    ConvertGitLabEventToCommands_comment [of "\<lparr>GitLabEvent.EventType = MergeRequestComment\<rparr>"
      "Some (example_context (Some 7) ''digger apply, then digger plan'')"
      "example_context (Some 7) ''digger apply, then digger plan''"
      "[example_project ''a'', example_project ''b'']"]
    ConvertGitLabEventToCommands_comment [of "\<lparr>GitLabEvent.EventType = MergeRequestComment\<rparr>"
      "Some (example_context (Some 7) ''looks good to me'')"
      "example_context (Some 7) ''looks good to me''" "[example_project ''a'']"]
  by (simp add: example_project_def example_command_def example_context_def Contains_examples)

subsection \<open>The orchestrator\<close>

text \<open>
  Claim C2, as stated: no command reaches the executor without a call of \<^verbatim>\<open>Check\<close> that
  allowed it. A batch with one \<^verbatim>\<open>digger apply\<close> is run against the recording executor:
  the log holds the usage record and the call of \<^verbatim>\<open>Apply\<close>, and no call of \<^verbatim>\<open>Check\<close>.
\<close>

theorem RunCommandsPerProject_runs_unchecked:
  "snd (RunCommandsPerProject (recording (\<lambda>_. True)) [example_command ''a'' [''digger apply'']]
          (example_context (Some 7) ''digger apply'') ''/w'' []) =
     [UsageRecord ''repo'' MergeRequestComment ''apply'', ApplyCall (example_executor ''a'') 7]
   \<and> \<not> authorized_log False
         (snd (RunCommandsPerProject (recording (\<lambda>_. True))
                 [example_command ''a'' [''digger apply'']]
                 (example_context (Some 7) ''digger apply'') ''/w'' []))"
  by (simp add: RunCommandsPerProject_def run_command_def make_executor_def recording_def
      example_command_def example_context_def example_executor_def)

text \<open>
  Claim C2, amended. \<^verbatim>\<open>RunCommandsPerProject\<close> calls no authorizer. With a merge request
  identifier present, the commands handed to the executor are, in the order of the batch,
  exactly the command strings of the batch that are one of the four known ones; every other
  string is skipped; and the log holds no call of \<^verbatim>\<open>Check\<close>.
\<close>

theorem RunCommandsPerProject_no_authorization:
  assumes "MergeRequestIId gitLabContext = Some mr"
    and "log = snd (RunCommandsPerProject (recording oracle) commandsPerProject gitLabContext wd [])"
  shows "delegated log =
       filter (\<lambda>(project, command).
                 command \<in> {''digger plan'', ''digger apply'', ''digger unlock'', ''digger lock''})
         (batch_commands commandsPerProject)
     \<and> (\<forall>c\<in>set log. \<not> is_check c)"
proof -
  obtain calls where
    "projects_loop (recording oracle) gitLabContext wd commandsPerProject True [] =
       (Inr (flag_after True (lock_results calls)), [] @ calls)"
    "delegated calls =
         filter (\<lambda>(project, command). command \<in> set supportedCommands)
           (batch_commands commandsPerProject)"
    "\<forall>c\<in>set calls. \<not> is_check c"
    using projects_loop_recording [OF assms(1)] by blast
  then show ?thesis
    using assms(2) by (simp add: RunCommandsPerProject_def supportedCommands_def)
qed

theorem RunCommandsPerProject_no_authorization_witness:
  "delegated (snd (RunCommandsPerProject (recording (\<lambda>_. True))
       [example_command ''a'' [''digger plan'', ''digger destroy''],
        example_command ''b'' [''digger lock'']]
       (example_context (Some 7) '''') ''/w'' [])) =
     [(''a'', ''digger plan''), (''b'', ''digger lock'')]"
  using RunCommandsPerProject_no_authorization [of "example_context (Some 7) ''''" 7
      "snd (RunCommandsPerProject (recording (\<lambda>_. True))
       [example_command ''a'' [''digger plan'', ''digger destroy''],
        example_command ''b'' [''digger lock'']]
       (example_context (Some 7) '''') ''/w'' [])" "\<lambda>_. True"
       "[example_command ''a'' [''digger plan'', ''digger destroy''],
        example_command ''b'' [''digger lock'']]" "''/w''"]
  by (simp add: example_context_def example_command_def batch_commands_def)

text \<open>
  Claim C1. The claim is that the run ends with a failing status iff some lock acquisition
  of the batch returned false. The source assigns each result of \<^verbatim>\<open>Lock\<close> to the flag, so a
  later success overwrites an earlier failure. Three projects are locked; the first
  acquisition returns false, the other two true; the run returns \<^verbatim>\<open>nil\<close> instead of
  exiting with status 1.
\<close>

theorem RunCommandsPerProject_lock_failure_forgotten:
  "RunCommandsPerProject (recording (\<lambda>w. 1 < length w))
       [example_command ''a'' [''digger lock''], example_command ''b'' [''digger lock''],
        example_command ''c'' [''digger lock'']]
       (example_context (Some 7) ''digger lock'') ''/w'' [] =
     (Returned None,
      [UsageRecord ''grp'' MergeRequestComment ''lock'', LockCall (example_executor ''a'') 7 False,
       UsageRecord ''grp'' MergeRequestComment ''lock'', LockCall (example_executor ''b'') 7 True,
       UsageRecord ''grp'' MergeRequestComment ''lock'', LockCall (example_executor ''c'') 7 True])"
  by (simp add: RunCommandsPerProject_def run_command_def make_executor_def recording_def
      example_command_def example_context_def example_executor_def)

end
